theory Spec2Isabelle
  imports Main
begin

section \<open>The traffic graph page of the Kiali plugin\<close>

text \<open>
  A shallow embedding of \<^verbatim>\<open>plugins/kiali/src/pages/TrafficGraph/TrafficGraphPage.tsx\<close>.
  The React component is a state machine: its hooks (\<^verbatim>\<open>useState\<close>, \<^verbatim>\<open>useRef\<close>) are the
  fields of a record, its effects and callbacks are functions on that record, and the
  things that happen to it (a render with new view parameters, the passing of time, a click
  on refresh, the settling of a telemetry request) are events.
\<close>

subsection \<open>The topology model\<close>

text \<open>
  \<^verbatim>\<open>const graphConfig = { id: 'g1', type: 'graph', layout: 'Dagre' }\<close> (lines 39 to 43).
  The fields \<^verbatim>\<open>id\<close> and \<^verbatim>\<open>type\<close> are written \<open>config_id\<close> and \<open>config_type\<close>.
\<close>

record GraphConfig =
  config_id :: string
  config_type :: string
  layout :: string

definition graphConfig :: GraphConfig where
  "graphConfig = \<lparr>config_id = ''g1'', config_type = ''graph'', layout = ''Dagre''\<rparr>"

text \<open>
  What \<^verbatim>\<open>generateDataModel\<close> returns has the fields \<^verbatim>\<open>nodes\<close> and \<^verbatim>\<open>edges\<close>; the
  \<^verbatim>\<open>Model\<close> of the topology library adds \<^verbatim>\<open>graph\<close>. Nodes and edges are opaque here.
\<close>

record ('n, 'e) GraphData =
  nodes :: "'n list"
  edges :: "'e list"

record ('n, 'e) Model = "('n, 'e) GraphData" +
  graph :: GraphConfig

subsection \<open>The rendering controller\<close>

text \<open>
  The \<^verbatim>\<open>Visualization\<close> of the topology library, as far as the page drives it: the
  factories registered, the fit-to-screen-on-layout switch, and the calls of
  \<^verbatim>\<open>fromModel(model, animate)\<close> it has received, oldest first.
\<close>

datatype factory = KialiLayoutFactory | KialiComponentFactory

record ('n, 'e) Visualization =
  layoutFactories :: "factory list"
  componentFactories :: "factory list"
  fitToScreenOnLayout :: bool
  fromModelCalls :: "(('n, 'e) Model \<times> bool) list"

definition new_Visualization :: "('n, 'e) Visualization" where
  "new_Visualization =
     \<lparr>layoutFactories = [], componentFactories = [], fitToScreenOnLayout = False,
      fromModelCalls = []\<rparr>"

definition registerLayoutFactory ::
  "factory \<Rightarrow> ('n, 'e) Visualization \<Rightarrow> ('n, 'e) Visualization" where
  "registerLayoutFactory f vis = vis\<lparr>layoutFactories := layoutFactories vis @ [f]\<rparr>"

definition registerComponentFactory ::
  "factory \<Rightarrow> ('n, 'e) Visualization \<Rightarrow> ('n, 'e) Visualization" where
  "registerComponentFactory f vis = vis\<lparr>componentFactories := componentFactories vis @ [f]\<rparr>"

definition setFitToScreenOnLayout ::
  "bool \<Rightarrow> ('n, 'e) Visualization \<Rightarrow> ('n, 'e) Visualization" where
  "setFitToScreenOnLayout b vis = vis\<lparr>fitToScreenOnLayout := b\<rparr>"

definition fromModel ::
  "('n, 'e) Model \<Rightarrow> bool \<Rightarrow> ('n, 'e) Visualization \<Rightarrow> ('n, 'e) Visualization" where
  "fromModel m animate vis = vis\<lparr>fromModelCalls := fromModelCalls vis @ [(m, animate)]\<rparr>"

text \<open>\<^verbatim>\<open>getVisualization\<close>, lines 45 to 53.\<close>

definition getVisualization :: "('n, 'e) Visualization" where
  "getVisualization =
     setFitToScreenOnLayout True
       (registerComponentFactory KialiComponentFactory
         (registerLayoutFactory KialiLayoutFactory new_Visualization))"

subsection \<open>The telemetry query\<close>

text \<open>
  The enumerations of \<^verbatim>\<open>types/Graph\<close> are imported at line 28 and declared elsewhere;
  the page names one graph type, two edge label modes and three traffic rates. The other
  members listed are those of the Kiali graph API and play no part below.
\<close>

datatype GraphType = APP | SERVICE | VERSIONED_APP | WORKLOAD

datatype EdgeLabelMode =
  RESPONSE_TIME_GROUP | THROUGHPUT_GROUP | TRAFFIC_DISTRIBUTION | TRAFFIC_RATE

datatype TrafficRate =
  GRPC_GROUP | GRPC_TOTAL | HTTP_GROUP | HTTP_REQUEST | TCP_GROUP | TCP_TOTAL

record GraphQuery =
  appenders :: string
  activeNamespaces :: string
  namespaces :: string
  graphType :: GraphType
  injectServiceNodes :: bool
  boxByNamespace :: bool
  boxByCluster :: bool
  showOutOfMesh :: bool
  showSecurity :: bool
  showVirtualServices :: bool
  edgeLabels :: "EdgeLabelMode list"
  trafficRates :: "TrafficRate list"

text \<open>JavaScript's \<^verbatim>\<open>Array.prototype.join\<close> on an array of strings.\<close>

fun join :: "string \<Rightarrow> string list \<Rightarrow> string" where
  "join sep [] = []"
| "join sep [x] = x"
| "join sep (x # y # ys) = x @ sep @ join sep (y # ys)"

text \<open>The object literal \<^verbatim>\<open>graphQueryElements\<close>, lines 103 to 123.\<close>

definition graphQueryElements :: "string list \<Rightarrow> GraphQuery" where
  "graphQueryElements activeNs =
     \<lparr>appenders = ''health,deadNode,istio,serviceEntry,meshCheck,workloadEntry'',
      activeNamespaces = join '','' activeNs,
      namespaces = join '','' activeNs,
      graphType = VERSIONED_APP,
      injectServiceNodes = True,
      boxByNamespace = True,
      boxByCluster = True,
      showOutOfMesh = False,
      showSecurity = False,
      showVirtualServices = False,
      edgeLabels = [TRAFFIC_RATE, TRAFFIC_DISTRIBUTION],
      trafficRates = [HTTP_REQUEST, GRPC_TOTAL, TCP_TOTAL]\<rparr>"

text \<open>What \<^verbatim>\<open>getGraphElements\<close> resolves to: \<^verbatim>\<open>data.elements\<close> and \<^verbatim>\<open>data.duration\<close>.\<close>

record 'a GraphDefinition =
  elements :: 'a
  duration :: int

subsection \<open>Collaborators declared outside the page\<close>

text \<open>
  \<^verbatim>\<open>decorateGraphData\<close>, \<^verbatim>\<open>generateDataModel\<close> and \<^verbatim>\<open>getErrorString\<close> are imported
  (lines 25, 32 and 33); the page only calls them, so they are parameters. The first two
  run inside the \<^verbatim>\<open>try\<close> block, so each may throw: \<open>Inl\<close> is the thrown value.
\<close>

record ('a, 'g, 'n, 'e, 'x) Collaborators =
  decorateGraphData :: "'a \<Rightarrow> int \<Rightarrow> 'x + 'g"
  generateDataModel :: "'g \<Rightarrow> GraphQuery \<Rightarrow> 'x + ('n, 'e) GraphData"
  getErrorString :: "'x \<Rightarrow> string"

text \<open>
  Modelled from the spec: \<^verbatim>\<open>nsEqual\<close> of \<^verbatim>\<open>helpers/namespaces\<close>, imported at line 24,
  whose body is not among the sources. The specification says the active namespace set is
  "compared as an unordered set, not by array order" and that the view-state source compares
  "by value (set equality for namespaces, scalar equality for duration)".
\<close>

definition nsEqual :: "string list \<Rightarrow> string list \<Rightarrow> bool" where
  "nsEqual ns ns2 = (set ns = set ns2)"

subsection \<open>The state of the page\<close>

text \<open>
  One mounted \<^verbatim>\<open>TrafficGraphPage\<close>:
  \<^item> \<open>model\<close> is the \<^verbatim>\<open>useState<Model>\<close> of line 85; \<open>modelFresh\<close> says that it has been
    replaced since the effect depending on it last ran (every \<^verbatim>\<open>setModel\<close> of the page passes
    a new object, so React sees a changed dependency); \<open>stored\<close> lists every value the
    state has held, oldest first;
  \<^item> \<open>prevActiveNs\<close> and \<open>prevDuration\<close> are the two \<^verbatim>\<open>useRef\<close> of lines 82 and 83; a
    duration is a whole number of seconds;
  \<^item> \<open>controller\<close> is the \<^verbatim>\<open>Visualization\<close> of line 91;
  \<^item> \<open>alertUtils\<close> is \<^verbatim>\<open>kialiState.alertUtils\<close>, which may be undefined: when present, the
    messages passed to its \<^verbatim>\<open>add\<close>, oldest first;
  \<^item> \<open>requests\<close> are the queries passed to \<^verbatim>\<open>kialiClient.getGraphElements\<close>, oldest first,
    and \<open>awaiting\<close> the positions of those not settled yet;
  \<^item> \<open>debounce\<close> is the deadline of the timer of \<^verbatim>\<open>useDebounce(refresh, 10)\<close> while it is
    pending, and \<open>clock\<close> the time;
  \<^item> \<open>refreshNs\<close> is the namespace list in the closure of \<^verbatim>\<open>refresh\<close>: \<^verbatim>\<open>useAsyncFn\<close> is
    given the dependency list \<^verbatim>\<open>[]\<close>, so it keeps the callback of the first render;
  \<^item> \<open>fetchGraphCalls\<close> counts the invocations of \<^verbatim>\<open>fetchGraph\<close>.

  The \<^verbatim>\<open>loading\<close> flag of \<^verbatim>\<open>useAsyncFn\<close> only chooses between the spinner and the graph in
  what is rendered; no effect or callback reads it, and it is left out.
\<close>

record ('n, 'e) Page =
  model :: "('n, 'e) Model"
  modelFresh :: bool
  stored :: "('n, 'e) Model list"
  prevActiveNs :: "string list"
  prevDuration :: int
  controller :: "('n, 'e) Visualization"
  alertUtils :: "string list option"
  requests :: "GraphQuery list"
  awaiting :: "nat list"
  debounce :: "nat option"
  clock :: nat
  refreshNs :: "string list"
  fetchGraphCalls :: nat

definition setModel :: "('n, 'e) Model \<Rightarrow> ('n, 'e) Page \<Rightarrow> ('n, 'e) Page" where
  "setModel m s = s\<lparr>model := m, modelFresh := True, stored := stored s @ [m]\<rparr>"

text \<open>\<^verbatim>\<open>kialiState.alertUtils?.add(msg)\<close>: nothing happens when \<^verbatim>\<open>alertUtils\<close> is undefined.\<close>

definition alertUtils_add :: "string \<Rightarrow> ('n, 'e) Page \<Rightarrow> ('n, 'e) Page" where
  "alertUtils_add msg s =
     (case alertUtils s of
        None \<Rightarrow> s
      | Some msgs \<Rightarrow> s\<lparr>alertUtils := Some (msgs @ [msg])\<rparr>)"

text \<open>The messages the alert sink has received.\<close>

definition alertCalls :: "('n, 'e) Page \<Rightarrow> string list" where
  "alertCalls s = (case alertUtils s of None \<Rightarrow> [] | Some msgs \<Rightarrow> msgs)"

subsection \<open>fetchGraph\<close>

text \<open>
  The promise an \<^verbatim>\<open>async\<close> function returns: settled, or waiting for the telemetry request
  at the given position of \<open>requests\<close>.
\<close>

datatype 'x promise = Fulfilled | Rejected 'x | Pending nat

text \<open>
  \<^verbatim>\<open>fetchGraph\<close> (lines 93 to 139) up to its \<^verbatim>\<open>await\<close>: the early return on an empty
  namespace list, otherwise the query is built and handed to \<^verbatim>\<open>getGraphElements\<close>.
  \<open>activeNs\<close> is the \<^verbatim>\<open>activeNamespaces\<close> of the render whose closure runs.
\<close>

definition fetchGraph :: "string list \<Rightarrow> ('n, 'e) Page \<Rightarrow> 'x promise \<times> ('n, 'e) Page" where
  "fetchGraph activeNs s0 =
     (let s = s0\<lparr>fetchGraphCalls := Suc (fetchGraphCalls s0)\<rparr> in
      if length activeNs = 0 then
        (Fulfilled, setModel \<lparr>nodes = [], edges = [], graph = graphConfig\<rparr> s)
      else
        (Pending (length (requests s)),
         s\<lparr>requests := requests s @ [graphQueryElements activeNs],
           awaiting := awaiting s @ [length (requests s)]\<rparr>))"

text \<open>The \<^verbatim>\<open>catch\<close> clause, lines 134 to 138.\<close>

definition catch_error ::
  "('a, 'g, 'n, 'e, 'x) Collaborators \<Rightarrow> 'x \<Rightarrow> ('n, 'e) Page \<Rightarrow> ('n, 'e) Page" where
  "catch_error env error s =
     alertUtils_add (''Could not fetch services: '' @ getErrorString env error) s"

text \<open>
  \<^verbatim>\<open>fetchGraph\<close> from its \<^verbatim>\<open>await\<close> on (lines 126 to 138), once the request made with
  the query \<open>q\<close> has settled: \<open>Inl\<close> is a rejection, \<open>Inr\<close> the data.
\<close>

definition fetchGraph_resume ::
  "('a, 'g, 'n, 'e, 'x) Collaborators \<Rightarrow> GraphQuery \<Rightarrow> 'x + 'a GraphDefinition \<Rightarrow>
   ('n, 'e) Page \<Rightarrow> 'x promise \<times> ('n, 'e) Page" where
  "fetchGraph_resume env q settled s =
     (case settled of
        Inl error \<Rightarrow> (Fulfilled, catch_error env error s)
      | Inr data \<Rightarrow>
          (case decorateGraphData env (elements data) (duration data) of
             Inl error \<Rightarrow> (Fulfilled, catch_error env error s)
           | Inr graphData \<Rightarrow>
               (case generateDataModel env graphData q of
                  Inl error \<Rightarrow> (Fulfilled, catch_error env error s)
                | Inr g \<Rightarrow>
                    (Fulfilled,
                     setModel \<lparr>nodes = nodes g, edges = edges g, graph = graphConfig\<rparr> s))))"

subsection \<open>Effects and callbacks\<close>

text \<open>
  The effect of lines 152 to 162, run after a render in which \<^verbatim>\<open>activeNamespaces\<close> is
  \<open>activeNs\<close> and \<^verbatim>\<open>duration\<close> is \<open>d\<close>. The promise of \<^verbatim>\<open>fetchGraph()\<close> is dropped.
\<close>

definition changeEffect :: "string list \<Rightarrow> int \<Rightarrow> ('n, 'e) Page \<Rightarrow> ('n, 'e) Page" where
  "changeEffect activeNs d s =
     (if d \<noteq> prevDuration s \<or> \<not> nsEqual activeNs (prevActiveNs s) then
        (snd (fetchGraph activeNs s :: unit promise \<times> ('n, 'e) Page))
          \<lparr>prevDuration := d, prevActiveNs := activeNs\<rparr>
      else s)"

text \<open>The effect of lines 164 to 166, with the dependencies \<^verbatim>\<open>[model, controller]\<close>.\<close>

definition syncEffect :: "('n, 'e) Page \<Rightarrow> ('n, 'e) Page" where
  "syncEffect s =
     (if modelFresh s then
        s\<lparr>controller := fromModel (model s) False (controller s), modelFresh := False\<rparr>
      else s)"

text \<open>\<^verbatim>\<open>refresh\<close>, the callback of \<^verbatim>\<open>useAsyncFn\<close> (lines 168 to 174).\<close>

definition refresh :: "('n, 'e) Page \<Rightarrow> 'x promise \<times> ('n, 'e) Page" where
  "refresh s = fetchGraph (refreshNs s) s"

text \<open>
  The settling of the telemetry request at position \<open>i\<close>: the \<^verbatim>\<open>fetchGraph\<close> that waits
  for it resumes with the query it had built. A request settles once.
\<close>

definition settle ::
  "('a, 'g, 'n, 'e, 'x) Collaborators \<Rightarrow> nat \<Rightarrow> 'x + 'a GraphDefinition \<Rightarrow>
   ('n, 'e) Page \<Rightarrow> ('n, 'e) Page" where
  "settle env i settled s =
     (if i \<in> set (awaiting s) \<and> i < length (requests s) then
        snd (fetchGraph_resume env (requests s ! i) settled
               (s\<lparr>awaiting := removeAll i (awaiting s)\<rparr>))
      else s)"

subsection \<open>Events\<close>

text \<open>
  \<^item> \<open>Render activeNs d\<close>: the page renders with these view parameters (the namespaces are
    what \<^verbatim>\<open>getNamespaces\<close> returns for the context, the duration is the state that
    \<^verbatim>\<open>setDuration\<close> sets);
  \<^item> \<open>Tick dt\<close>: \<open>dt\<close> time units pass; the timer of \<^verbatim>\<open>useDebounce(refresh, 10)\<close>, set at
    mount, calls \<^verbatim>\<open>refresh\<close> when its delay has passed;
  \<^item> \<open>Refresh\<close>: \<^verbatim>\<open>onRefresh\<close> of the masthead;
  \<^item> \<open>Resolved i data\<close> and \<open>Failed i error\<close>: the telemetry request \<open>i\<close> settles.
\<close>

datatype ('a, 'x) event =
  Render "string list" int
| Tick nat
| Refresh
| Resolved nat "'a GraphDefinition"
| Failed nat 'x

fun dispatch ::
  "('a, 'g, 'n, 'e, 'x) Collaborators \<Rightarrow> ('a, 'x) event \<Rightarrow> ('n, 'e) Page \<Rightarrow> ('n, 'e) Page" where
  "dispatch env (Render activeNs d) s = changeEffect activeNs d s"
| "dispatch env (Tick dt) s =
     (let s' = s\<lparr>clock := clock s + dt\<rparr> in
      case debounce s' of
        None \<Rightarrow> s'
      | Some deadline \<Rightarrow>
          if deadline \<le> clock s' then
            snd (refresh (s'\<lparr>debounce := None\<rparr>) :: 'x promise \<times> ('n, 'e) Page)
          else s')"
| "dispatch env Refresh s = snd (refresh s :: 'x promise \<times> ('n, 'e) Page)"
| "dispatch env (Resolved i data) s = settle env i (Inr data) s"
| "dispatch env (Failed i error) s = settle env i (Inl error) s"

text \<open>One event, then the effects of the render that the state change causes.\<close>

definition step ::
  "('a, 'g, 'n, 'e, 'x) Collaborators \<Rightarrow> ('a, 'x) event \<Rightarrow> ('n, 'e) Page \<Rightarrow> ('n, 'e) Page" where
  "step env ev s = syncEffect (dispatch env ev s)"

fun run ::
  "('a, 'g, 'n, 'e, 'x) Collaborators \<Rightarrow> ('a, 'x) event list \<Rightarrow> ('n, 'e) Page \<Rightarrow> ('n, 'e) Page" where
  "run env [] s = s"
| "run env (ev # evs) s = run env evs (step env ev s)"

text \<open>
  The first render and its effects (lines 79 to 91, 152 to 176): the snapshot refs start at
  the first render's values, the model at the empty graph, and the debounce timer is set.
\<close>

definition mount :: "string list \<Rightarrow> int \<Rightarrow> string list option \<Rightarrow> ('n, 'e) Page" where
  "mount activeNs d au =
     syncEffect
       (changeEffect activeNs d
          \<lparr>model = \<lparr>nodes = [], edges = [], graph = graphConfig\<rparr>,
           modelFresh = True,
           stored = [\<lparr>nodes = [], edges = [], graph = graphConfig\<rparr>],
           prevActiveNs = activeNs,
           prevDuration = d,
           controller = getVisualization,
           alertUtils = au,
           requests = [],
           awaiting = [],
           debounce = Some 10,
           clock = 0,
           refreshNs = activeNs,
           fetchGraphCalls = 0\<rparr>)"

subsection \<open>A concrete instance\<close>

text \<open>
  Collaborators for running the page on concrete inputs: the telemetry elements are a list
  of names, decoration keeps them, and generation makes one node of the query's namespaces
  followed by one node per element, so that a model shows which request it came from.
\<close>

definition demoEnv :: "(string list, string list, string, string \<times> string, string) Collaborators" where
  "demoEnv =
     \<lparr>decorateGraphData = (\<lambda>els d. Inr els),
      generateDataModel = (\<lambda>gd q. Inr \<lparr>nodes = namespaces q # gd, edges = []\<rparr>),
      getErrorString = (\<lambda>error. error)\<rparr>"

text \<open>
  Three pages to run on: one mounted on the namespace \<open>a\<close> whose first fetch (the one the
  debounce timer starts) has been answered; one mounted on no namespace and then rendered
  with \<open>a\<close>, its request waiting; one rendered with \<open>a\<close> and then with \<open>b\<close>, both
  requests waiting.
\<close>

definition demoLoaded :: "(string, string \<times> string) Page" where
  "demoLoaded =
     run demoEnv [Tick 10, Resolved 0 \<lparr>elements = [''reviews''], duration = 60\<rparr>]
       (mount [''a''] 60 (Some []))"

definition demoWaiting :: "string list option \<Rightarrow> (string, string \<times> string) Page" where
  "demoWaiting au = run demoEnv [Render [''a''] 60] (mount [] 60 au)"

definition demoTwoWaiting :: "(string, string \<times> string) Page" where
  "demoTwoWaiting = run demoEnv [Render [''a''] 60, Render [''b''] 60] (mount [] 60 None)"

subsection \<open>Predicates of the properties\<close>

text \<open>
  A burst of view changes in which every render differs from the one before it (the first
  from the snapshot \<open>prevNs\<close>, \<open>prevD\<close>), by the test of the effect of lines 152 to 162.
\<close>

fun qualifying_burst :: "string list \<Rightarrow> int \<Rightarrow> (string list \<times> int) list \<Rightarrow> bool" where
  "qualifying_burst prevNs prevD [] = True"
| "qualifying_burst prevNs prevD ((activeNs, d) # burst) =
     ((d \<noteq> prevD \<or> \<not> nsEqual activeNs prevNs) \<and> qualifying_burst activeNs d burst)"

text \<open>The renders of a burst, as events.\<close>

definition renders :: "(string list \<times> int) list \<Rightarrow> ('a, 'x) event list" where
  "renders burst = map (\<lambda>(activeNs, d). Render activeNs d) burst"

text \<open>
  The controller is in step with the page: the effect of lines 164 to 166 has run for the
  current model, the controller has received every model the state has held, in order and
  each with \<^verbatim>\<open>animate\<close> false, and fit-to-screen-on-layout is switched on.
\<close>

definition in_sync :: "('n, 'e) Page \<Rightarrow> bool" where
  "in_sync s \<longleftrightarrow>
     \<not> modelFresh s \<and>
     fromModelCalls (controller s) = map (\<lambda>m. (m, False)) (stored s) \<and>
     stored s \<noteq> [] \<and> last (stored s) = model s \<and>
     fitToScreenOnLayout (controller s)"

text \<open>
  The fields of a query that do not depend on the namespaces, and the agreement of its two
  namespace fields.
\<close>

definition fixed_part :: "GraphQuery \<Rightarrow> bool" where
  "fixed_part q \<longleftrightarrow>
     appenders q = ''health,deadNode,istio,serviceEntry,meshCheck,workloadEntry'' \<and>
     activeNamespaces q = namespaces q \<and>
     graphType q = VERSIONED_APP \<and>
     injectServiceNodes q = True \<and>
     boxByNamespace q = True \<and>
     boxByCluster q = True \<and>
     showOutOfMesh q = False \<and>
     showSecurity q = False \<and>
     showVirtualServices q = False \<and>
     edgeLabels q = [TRAFFIC_RATE, TRAFFIC_DISTRIBUTION] \<and>
     trafficRates q = [HTTP_REQUEST, GRPC_TOTAL, TCP_TOTAL]"

text \<open>
  Every model the page has held, and the current one, carries \<open>graphConfig\<close>.
\<close>

definition configured :: "('n, 'e) Page \<Rightarrow> bool" where
  "configured s \<longleftrightarrow>
     (\<forall>m \<in> set (stored s). graph m = graphConfig) \<and> graph (model s) = graphConfig"

section \<open>Properties\<close>

subsection \<open>What each operation leaves alone\<close>

lemma syncEffect_keeps [simp]:
  "model (syncEffect s) = model s"
  "stored (syncEffect s) = stored s"
  "prevActiveNs (syncEffect s) = prevActiveNs s"
  "prevDuration (syncEffect s) = prevDuration s"
  "alertUtils (syncEffect s) = alertUtils s"
  "requests (syncEffect s) = requests s"
  "awaiting (syncEffect s) = awaiting s"
  "debounce (syncEffect s) = debounce s"
  "clock (syncEffect s) = clock s"
  "refreshNs (syncEffect s) = refreshNs s"
  "fetchGraphCalls (syncEffect s) = fetchGraphCalls s"
  by (simp_all add: syncEffect_def)

lemma syncEffect_controller [simp]:
  "modelFresh (syncEffect s) = False"
  "fitToScreenOnLayout (controller (syncEffect s)) = fitToScreenOnLayout (controller s)"
  "fromModelCalls (controller (syncEffect s)) =
     (if modelFresh s then fromModelCalls (controller s) @ [(model s, False)]
      else fromModelCalls (controller s))"
  by (simp_all add: syncEffect_def fromModel_def)

lemma alertCalls_syncEffect [simp]: "alertCalls (syncEffect s) = alertCalls s"
  by (simp add: alertCalls_def)

lemma setModel_fields [simp]:
  "model (setModel m s) = m"
  "modelFresh (setModel m s) = True"
  "stored (setModel m s) = stored s @ [m]"
  "prevActiveNs (setModel m s) = prevActiveNs s"
  "prevDuration (setModel m s) = prevDuration s"
  "controller (setModel m s) = controller s"
  "alertUtils (setModel m s) = alertUtils s"
  "requests (setModel m s) = requests s"
  "awaiting (setModel m s) = awaiting s"
  "debounce (setModel m s) = debounce s"
  "clock (setModel m s) = clock s"
  "refreshNs (setModel m s) = refreshNs s"
  "fetchGraphCalls (setModel m s) = fetchGraphCalls s"
  by (simp_all add: setModel_def)

lemma catch_error_fields [simp]:
  "model (catch_error env err s) = model s"
  "modelFresh (catch_error env err s) = modelFresh s"
  "stored (catch_error env err s) = stored s"
  "prevActiveNs (catch_error env err s) = prevActiveNs s"
  "prevDuration (catch_error env err s) = prevDuration s"
  "controller (catch_error env err s) = controller s"
  "requests (catch_error env err s) = requests s"
  "awaiting (catch_error env err s) = awaiting s"
  "debounce (catch_error env err s) = debounce s"
  "clock (catch_error env err s) = clock s"
  "refreshNs (catch_error env err s) = refreshNs s"
  "fetchGraphCalls (catch_error env err s) = fetchGraphCalls s"
  by (simp_all add: catch_error_def alertUtils_add_def split: option.splits)

lemma fetchGraph_fields [simp]:
  "prevActiveNs (snd (fetchGraph ns s)) = prevActiveNs s"
  "prevDuration (snd (fetchGraph ns s)) = prevDuration s"
  "controller (snd (fetchGraph ns s)) = controller s"
  "alertUtils (snd (fetchGraph ns s)) = alertUtils s"
  "debounce (snd (fetchGraph ns s)) = debounce s"
  "clock (snd (fetchGraph ns s)) = clock s"
  "refreshNs (snd (fetchGraph ns s)) = refreshNs s"
  "fetchGraphCalls (snd (fetchGraph ns s)) = Suc (fetchGraphCalls s)"
  by (simp_all add: fetchGraph_def Let_def)

lemma fetchGraph_nonempty [simp]:
  "ns \<noteq> [] \<Longrightarrow> model (snd (fetchGraph ns s)) = model s"
  "ns \<noteq> [] \<Longrightarrow> modelFresh (snd (fetchGraph ns s)) = modelFresh s"
  "ns \<noteq> [] \<Longrightarrow> stored (snd (fetchGraph ns s)) = stored s"
  "ns \<noteq> [] \<Longrightarrow> requests (snd (fetchGraph ns s)) = requests s @ [graphQueryElements ns]"
  "ns \<noteq> [] \<Longrightarrow> awaiting (snd (fetchGraph ns s)) = awaiting s @ [length (requests s)]"
  by (simp_all add: fetchGraph_def Let_def)

lemma fetchGraph_empty [simp]:
  "model (snd (fetchGraph [] s)) = \<lparr>nodes = [], edges = [], graph = graphConfig\<rparr>"
  "modelFresh (snd (fetchGraph [] s)) = True"
  "stored (snd (fetchGraph [] s)) = stored s @ [\<lparr>nodes = [], edges = [], graph = graphConfig\<rparr>]"
  "requests (snd (fetchGraph [] s)) = requests s"
  "awaiting (snd (fetchGraph [] s)) = awaiting s"
  by (simp_all add: fetchGraph_def Let_def)

lemma fetchGraph_resume_fields [simp]:
  "prevActiveNs (snd (fetchGraph_resume env q r s)) = prevActiveNs s"
  "prevDuration (snd (fetchGraph_resume env q r s)) = prevDuration s"
  "controller (snd (fetchGraph_resume env q r s)) = controller s"
  "requests (snd (fetchGraph_resume env q r s)) = requests s"
  "awaiting (snd (fetchGraph_resume env q r s)) = awaiting s"
  "debounce (snd (fetchGraph_resume env q r s)) = debounce s"
  "clock (snd (fetchGraph_resume env q r s)) = clock s"
  "refreshNs (snd (fetchGraph_resume env q r s)) = refreshNs s"
  "fetchGraphCalls (snd (fetchGraph_resume env q r s)) = fetchGraphCalls s"
  by (simp_all add: fetchGraph_resume_def split: sum.splits)

lemma settle_fields [simp]:
  "prevActiveNs (settle env i r s) = prevActiveNs s"
  "prevDuration (settle env i r s) = prevDuration s"
  "controller (settle env i r s) = controller s"
  "requests (settle env i r s) = requests s"
  "debounce (settle env i r s) = debounce s"
  "clock (settle env i r s) = clock s"
  "refreshNs (settle env i r s) = refreshNs s"
  "fetchGraphCalls (settle env i r s) = fetchGraphCalls s"
  by (simp_all add: settle_def)

lemma settle_awaiting:
  "i \<noteq> j \<Longrightarrow> i \<in> set (awaiting (settle env j r s)) \<longleftrightarrow> i \<in> set (awaiting s)"
  by (simp add: settle_def)

lemma mount_fields [simp]:
  "model (mount ns d au) = \<lparr>nodes = [], edges = [], graph = graphConfig\<rparr>"
  "modelFresh (mount ns d au) = False"
  "stored (mount ns d au) = [\<lparr>nodes = [], edges = [], graph = graphConfig\<rparr>]"
  "prevActiveNs (mount ns d au) = ns"
  "prevDuration (mount ns d au) = d"
  "alertUtils (mount ns d au) = au"
  "requests (mount ns d au) = []"
  "awaiting (mount ns d au) = []"
  "debounce (mount ns d au) = Some 10"
  "clock (mount ns d au) = 0"
  "refreshNs (mount ns d au) = ns"
  "fetchGraphCalls (mount ns d au) = 0"
  by (simp_all add: mount_def changeEffect_def nsEqual_def)

lemma mount_controller [simp]:
  "fitToScreenOnLayout (controller (mount ns d au)) = True"
  "fromModelCalls (controller (mount ns d au)) =
     [(\<lparr>nodes = [], edges = [], graph = graphConfig\<rparr>, False)]"
  by (simp_all add: mount_def changeEffect_def nsEqual_def getVisualization_def
      setFitToScreenOnLayout_def registerComponentFactory_def registerLayoutFactory_def
      new_Visualization_def)

subsection \<open>How an event changes the model\<close>

text \<open>
  Every operation either leaves the model, its history and its freshness as they were, or
  stores one new model, which carries \<open>graphConfig\<close>. No handler touches the controller;
  only the effect of lines 164 to 166 does.
\<close>

lemma fetchGraph_model_cases:
  "(model (snd (fetchGraph ns s)) = model s \<and> stored (snd (fetchGraph ns s)) = stored s \<and>
    modelFresh (snd (fetchGraph ns s)) = modelFresh s) \<or>
   (stored (snd (fetchGraph ns s)) = stored s @ [model (snd (fetchGraph ns s))] \<and>
    modelFresh (snd (fetchGraph ns s)) \<and>
    graph (model (snd (fetchGraph ns s))) = graphConfig)"
  by (simp add: fetchGraph_def Let_def)

lemma fetchGraph_resume_model_cases:
  "(model (snd (fetchGraph_resume env q r s)) = model s \<and>
    stored (snd (fetchGraph_resume env q r s)) = stored s \<and>
    modelFresh (snd (fetchGraph_resume env q r s)) = modelFresh s) \<or>
   (stored (snd (fetchGraph_resume env q r s)) =
      stored s @ [model (snd (fetchGraph_resume env q r s))] \<and>
    modelFresh (snd (fetchGraph_resume env q r s)) \<and>
    graph (model (snd (fetchGraph_resume env q r s))) = graphConfig)"
  by (simp add: fetchGraph_resume_def split: sum.splits)

lemma settle_model_cases:
  "(model (settle env i r s) = model s \<and> stored (settle env i r s) = stored s \<and>
    modelFresh (settle env i r s) = modelFresh s) \<or>
   (stored (settle env i r s) = stored s @ [model (settle env i r s)] \<and>
    modelFresh (settle env i r s) \<and> graph (model (settle env i r s)) = graphConfig)"
  using fetchGraph_resume_model_cases [of env "requests s ! i" r "s\<lparr>awaiting := removeAll i (awaiting s)\<rparr>"]
  by (simp add: settle_def)

lemma changeEffect_model_cases:
  "(model (changeEffect ns d s) = model s \<and> stored (changeEffect ns d s) = stored s \<and>
    modelFresh (changeEffect ns d s) = modelFresh s) \<or>
   (stored (changeEffect ns d s) = stored s @ [model (changeEffect ns d s)] \<and>
    modelFresh (changeEffect ns d s) \<and> graph (model (changeEffect ns d s)) = graphConfig)"
  using fetchGraph_model_cases [of ns s, where ?'c = unit]
  by (auto simp: changeEffect_def)

lemma dispatch_model_cases:
  "(model (dispatch env ev s) = model s \<and> stored (dispatch env ev s) = stored s \<and>
    modelFresh (dispatch env ev s) = modelFresh s) \<or>
   (stored (dispatch env ev s) = stored s @ [model (dispatch env ev s)] \<and>
    modelFresh (dispatch env ev s) \<and> graph (model (dispatch env ev s)) = graphConfig)"
proof (cases ev)
  case (Render ns d)
  then show ?thesis using changeEffect_model_cases [of ns d s] by simp
next
  case (Tick dt)
  show ?thesis
  proof (cases "debounce s")
    case None
    with Tick show ?thesis by (simp add: Let_def)
  next
    case (Some deadline)
    with Tick show ?thesis
      using fetchGraph_model_cases [of "refreshNs s" "s\<lparr>clock := clock s + dt, debounce := None\<rparr>",
          where ?'c = 'e]
      by (auto simp: Let_def refresh_def)
  qed
next
  case Refresh
  then show ?thesis
    using fetchGraph_model_cases [of "refreshNs s" s, where ?'c = 'e] by (simp add: refresh_def)
next
  case (Resolved i data)
  then show ?thesis using settle_model_cases [of env i "Inr data" s] by simp
next
  case (Failed i err)
  then show ?thesis using settle_model_cases [of env i "Inl err" s] by simp
qed

lemma dispatch_controller: "controller (dispatch env ev s) = controller s"
  by (cases ev) (simp_all add: changeEffect_def refresh_def Let_def split: option.splits)

subsection \<open>Change detection\<close>

text \<open>
  C1. After a render with the namespaces \<open>activeNs\<close> and the duration \<open>d\<close>, \<^verbatim>\<open>fetchGraph\<close>
  is invoked once if the duration differs from the snapshot or \<open>nsEqual\<close> finds the
  namespaces different from the snapshot, and not at all otherwise. The invocation passes
  a query to \<^verbatim>\<open>getGraphElements\<close> only if the new namespace list is not empty; if it is
  empty, the empty model is stored and no query is sent. A render that does not differ
  sends nothing and leaves the model alone. \<open>nsEqual\<close>, modelled from the specification,
  compares the namespaces as sets, so a reordering of the same namespaces triggers nothing
  and a namespace added or removed invokes \<^verbatim>\<open>fetchGraph\<close>. Afterwards the snapshot has the
  duration of this render and, as a set, its namespaces, so the next render is compared
  with this one.
\<close>

theorem view_change_fetch_and_request:
  "fetchGraphCalls (step env (Render activeNs d) s) =
     (if d \<noteq> prevDuration s \<or> \<not> nsEqual activeNs (prevActiveNs s)
      then Suc (fetchGraphCalls s) else fetchGraphCalls s) \<and>
   requests (step env (Render activeNs d) s) =
     (if (d \<noteq> prevDuration s \<or> \<not> nsEqual activeNs (prevActiveNs s)) \<and> activeNs \<noteq> []
      then requests s @ [graphQueryElements activeNs] else requests s) \<and>
   model (step env (Render activeNs d) s) =
     (if (d \<noteq> prevDuration s \<or> \<not> nsEqual activeNs (prevActiveNs s)) \<and> activeNs = []
      then \<lparr>nodes = [], edges = [], graph = graphConfig\<rparr> else model s) \<and>
   (nsEqual activeNs (prevActiveNs s) \<longleftrightarrow> set activeNs = set (prevActiveNs s)) \<and>
   prevDuration (step env (Render activeNs d) s) = d \<and>
   set (prevActiveNs (step env (Render activeNs d) s)) = set activeNs"
  by (simp add: step_def changeEffect_def nsEqual_def)

lemma ab_nsEqual:
  "nsEqual [''b'', ''a''] [''a'', ''b'']"
  "\<not> nsEqual [''a'', ''b'', ''c''] [''a'', ''b'']"
  "\<not> nsEqual [''a''] [''a'', ''b'']"
  "nsEqual [''a'', ''b''] [''a'', ''b'']"
  "\<not> nsEqual [] [''a'', ''b'']"
  by code_simp+

theorem view_change_fetch_and_request_witness:
  "requests (step demoEnv (Render [''b'', ''a''] 60) (mount [''a'', ''b''] 60 None)) = [] \<and>
   requests (step demoEnv (Render [''a'', ''b'', ''c''] 60) (mount [''a'', ''b''] 60 None)) =
     [graphQueryElements [''a'', ''b'', ''c'']] \<and>
   requests (step demoEnv (Render [''a''] 60) (mount [''a'', ''b''] 60 None)) =
     [graphQueryElements [''a'']] \<and>
   requests (step demoEnv (Render [''a'', ''b''] 300) (mount [''a'', ''b''] 60 None)) =
     [graphQueryElements [''a'', ''b'']] \<and>
   requests (step demoEnv (Render [] 60) (mount [''a'', ''b''] 60 None)) = [] \<and>
   fetchGraphCalls (step demoEnv (Render [] 60) (mount [''a'', ''b''] 60 None)) = 1 \<and>
   fetchGraphCalls (step demoEnv (Render [''b'', ''a''] 60) (mount [''a'', ''b''] 60 None)) = 0"
  using view_change_fetch_and_request [of demoEnv "[''b'', ''a'']" 60 "mount [''a'', ''b''] 60 None"]
    view_change_fetch_and_request [of demoEnv "[''a'', ''b'', ''c'']" 60 "mount [''a'', ''b''] 60 None"]
    view_change_fetch_and_request [of demoEnv "[''a'']" 60 "mount [''a'', ''b''] 60 None"]
    view_change_fetch_and_request [of demoEnv "[''a'', ''b'']" 300 "mount [''a'', ''b''] 60 None"]
    view_change_fetch_and_request [of demoEnv "[]" 60 "mount [''a'', ''b''] 60 None"]
  by (simp only: mount_fields ab_nsEqual) simp

lemma a_removed:
  "set ([] :: string list) \<noteq> set [''a'']"
  "requests (step demoEnv (Render [] 60) (mount [''a''] 60 None)) = []"
  "fetchGraphCalls (step demoEnv (Render [] 60) (mount [''a''] 60 None)) = 1"
  by code_simp+

theorem last_namespace_removed_counterexample:
  "prevActiveNs (mount [''a''] 60 None :: (string, string \<times> string) Page) = [''a''] \<and>
   set ([] :: string list) \<noteq> set [''a''] \<and>
   fetchGraphCalls (step demoEnv (Render [] 60) (mount [''a''] 60 None)) = 1 \<and>
   requests (step demoEnv (Render [] 60) (mount [''a''] 60 None)) = []"
  by (simp only: mount_fields a_removed) simp

subsection \<open>The empty namespace list\<close>

text \<open>
  \<^verbatim>\<open>fetchGraph\<close> run with an empty list stores a model with no nodes and no edges, passes
  no query to \<^verbatim>\<open>getGraphElements\<close>, raises no alert, and its promise is fulfilled. The
  list is the \<^verbatim>\<open>activeNamespaces\<close> of the closure that runs: the current one when the
  effect of lines 152 to 162 calls \<^verbatim>\<open>fetchGraph\<close>, the first render's when \<^verbatim>\<open>refresh\<close>
  does.
\<close>

lemma fetchGraph_empty_list:
  "set activeNs = {} \<Longrightarrow>
     fst (fetchGraph activeNs s) = (Fulfilled :: 'x promise) \<and>
     model (snd (fetchGraph activeNs s :: 'x promise \<times> ('n, 'e) Page)) =
       \<lparr>nodes = [], edges = [], graph = graphConfig\<rparr> \<and>
     requests (snd (fetchGraph activeNs s :: 'x promise \<times> ('n, 'e) Page)) = requests s \<and>
     awaiting (snd (fetchGraph activeNs s :: 'x promise \<times> ('n, 'e) Page)) = awaiting s \<and>
     alertUtils (snd (fetchGraph activeNs s :: 'x promise \<times> ('n, 'e) Page)) = alertUtils s"
  by (simp add: fetchGraph_def Let_def)

text \<open>
  C2. On the page mounted with the namespace \<open>a\<close>, once its first fetch has been answered
  and the view has changed to no namespace, the snapshot is empty, the model is the empty
  one and one query has been sent. A click on refresh then sends a second query, again for
  \<open>a\<close>, and its response puts the nodes of \<open>a\<close> back into the model, with no namespace
  active: \<^verbatim>\<open>refresh\<close> runs the \<^verbatim>\<open>fetchGraph\<close> of the first render.
\<close>

theorem refresh_with_no_active_namespace:
  "prevActiveNs (run demoEnv [Render [] 60] demoLoaded) = [] \<and>
   model (run demoEnv [Render [] 60] demoLoaded) =
     \<lparr>nodes = [], edges = [], graph = graphConfig\<rparr> \<and>
   requests (run demoEnv [Render [] 60] demoLoaded) = [graphQueryElements [''a'']] \<and>
   requests (run demoEnv [Render [] 60, Refresh] demoLoaded) =
     [graphQueryElements [''a''], graphQueryElements [''a'']] \<and>
   awaiting (run demoEnv [Render [] 60, Refresh] demoLoaded) = [1] \<and>
   model (run demoEnv [Render [] 60, Refresh,
                       Resolved 1 \<lparr>elements = [''reviews''], duration = 60\<rparr>] demoLoaded) =
     \<lparr>nodes = [''a'', ''reviews''], edges = [], graph = graphConfig\<rparr>"
  by code_simp

subsection \<open>A failed request\<close>

lemma demoWaiting_facts:
  "awaiting (demoWaiting au) = [0]"
  "requests (demoWaiting au) = [graphQueryElements [''a'']]"
  "alertUtils (demoWaiting au) = au"
  "model (demoWaiting au) = \<lparr>nodes = [], edges = [], graph = graphConfig\<rparr>"
  by (simp_all add: demoWaiting_def step_def changeEffect_def nsEqual_def)

text \<open>
  C3. When the telemetry request of a waiting \<^verbatim>\<open>fetchGraph\<close> is rejected, the stored model
  stays as it was and the promise of \<^verbatim>\<open>fetchGraph\<close> is fulfilled (the rejection is caught).
  If the application state provides \<^verbatim>\<open>alertUtils\<close>, it receives exactly one message,
  "Could not fetch services: " followed by the error string; if it provides none,
  nothing is reported.
\<close>

theorem failed_fetch_keeps_model_and_alerts:
  "i \<in> set (awaiting s) \<Longrightarrow> i < length (requests s) \<Longrightarrow>
     model (step env (Failed i err) s) = model s \<and>
     stored (step env (Failed i err) s) = stored s \<and>
     fst (fetchGraph_resume env (requests s ! i) (Inl err)
            (s\<lparr>awaiting := removeAll i (awaiting s)\<rparr>)) = Fulfilled \<and>
     alertCalls (step env (Failed i err) s) =
       (if alertUtils s = None then alertCalls s
        else alertCalls s @ [''Could not fetch services: '' @ getErrorString env err])"
  by (cases "alertUtils s")
    (simp_all add: step_def settle_def fetchGraph_resume_def catch_error_def alertUtils_add_def
      alertCalls_def)

theorem failed_fetch_keeps_model_and_alerts_witness:
  "0 \<in> set (awaiting (demoWaiting (Some []))) \<and>
   0 < length (requests (demoWaiting (Some []))) \<and>
   model (step demoEnv (Failed 0 ''boom'') (demoWaiting (Some []))) =
     \<lparr>nodes = [], edges = [], graph = graphConfig\<rparr> \<and>
   alertCalls (step demoEnv (Failed 0 ''boom'') (demoWaiting (Some []))) =
     [''Could not fetch services: boom'']"
  using failed_fetch_keeps_model_and_alerts [of 0 "demoWaiting (Some [])" demoEnv "''boom''"]
  by (simp add: demoWaiting_facts alertCalls_def) (simp add: demoEnv_def)

theorem failed_fetch_without_alert_sink_counterexample:
  "awaiting (demoWaiting None) = [0] \<and>
   alertCalls (step demoEnv (Failed 0 ''boom'') (demoWaiting None)) = [] \<and>
   alertCalls (step demoEnv (Failed 0 ''boom'') (demoWaiting None)) \<noteq>
     alertCalls (demoWaiting None) @ [''Could not fetch services: boom'']"
  by (simp add: demoWaiting_facts alertCalls_def step_def settle_def fetchGraph_resume_def
      catch_error_def alertUtils_add_def)

subsection \<open>Two requests in flight\<close>

lemma resolved_stores_generated:
  assumes "i \<in> set (awaiting s)" and "i < length (requests s)"
    and "decorateGraphData env (elements data) (duration data) = Inr gd"
    and "generateDataModel env gd (requests s ! i) = Inr g"
  shows "model (step env (Resolved i data) s) =
           \<lparr>nodes = nodes g, edges = edges g, graph = graphConfig\<rparr>"
  using assms by (simp add: step_def settle_def fetchGraph_resume_def)

lemma step_settled_requests:
  "requests (step env (Resolved j data) s) = requests s"
  "requests (step env (Failed j err) s) = requests s"
  by (simp_all add: step_def)

lemma step_settled_awaiting:
  "i \<noteq> j \<Longrightarrow> i \<in> set (awaiting (step env (Resolved j data) s)) \<longleftrightarrow> i \<in> set (awaiting s)"
  "i \<noteq> j \<Longrightarrow> i \<in> set (awaiting (step env (Failed j err) s)) \<longleftrightarrow> i \<in> set (awaiting s)"
  by (simp_all add: step_def settle_awaiting)

lemma demoTwoWaiting_facts:
  "awaiting demoTwoWaiting = [0, 1]"
  "requests demoTwoWaiting = [graphQueryElements [''a''], graphQueryElements [''b'']]"
  "prevActiveNs demoTwoWaiting = [''b'']"
  by (simp_all add: demoTwoWaiting_def step_def changeEffect_def nsEqual_def)

text \<open>
  C4. The page keeps no order among its requests: whichever response is delivered last
  replaces the model, built from that response and from the query of its own request.
  With two requests \<open>i\<close> and \<open>j\<close> waiting, if the response of \<open>j\<close> is delivered first and
  the response of \<open>i\<close> second, the model stored in the end is the one generated for \<open>i\<close>,
  whether \<open>i\<close> was issued before \<open>j\<close> or after it.
\<close>

theorem last_delivered_response_wins:
  assumes "i \<in> set (awaiting s)" and "i < length (requests s)" and "i \<noteq> j"
    and "decorateGraphData env (elements di) (duration di) = Inr gd"
    and "generateDataModel env gd (requests s ! i) = Inr g"
  shows "model (step env (Resolved i di) (step env (Resolved j dj) s)) =
           \<lparr>nodes = nodes g, edges = edges g, graph = graphConfig\<rparr>"
proof -
  let ?s' = "step env (Resolved j dj) s"
  have "i \<in> set (awaiting ?s')"
    using assms(1,3) by (simp add: step_settled_awaiting)
  moreover have "i < length (requests ?s')"
    using assms(2) by (simp add: step_settled_requests)
  moreover note assms(4)
  moreover have "generateDataModel env gd (requests ?s' ! i) = Inr g"
    using assms(5) by (simp add: step_settled_requests)
  ultimately show ?thesis
    by (rule resolved_stores_generated)
qed

theorem last_delivered_response_wins_witness:
  "1 \<in> set (awaiting demoTwoWaiting) \<and> 1 < length (requests demoTwoWaiting) \<and>
   model (step demoEnv (Resolved 1 \<lparr>elements = [''ratings''], duration = 60\<rparr>)
           (step demoEnv (Resolved 0 \<lparr>elements = [''reviews''], duration = 60\<rparr>) demoTwoWaiting)) =
     \<lparr>nodes = [''b'', ''ratings''], edges = [], graph = graphConfig\<rparr>"
  using last_delivered_response_wins [of 1 demoTwoWaiting 0 demoEnv
      "\<lparr>elements = [''ratings''], duration = 60\<rparr>" "[''ratings'']"
      "\<lparr>nodes = [''b'', ''ratings''], edges = []\<rparr>"
      "\<lparr>elements = [''reviews''], duration = 60\<rparr>"]
  by (simp add: demoTwoWaiting_facts) (simp add: demoEnv_def graphQueryElements_def)

theorem stale_response_overwrites_counterexample:
  "prevActiveNs demoTwoWaiting = [''b''] \<and>
   model (run demoEnv [Resolved 1 \<lparr>elements = [''ratings''], duration = 60\<rparr>] demoTwoWaiting) =
     \<lparr>nodes = [''b'', ''ratings''], edges = [], graph = graphConfig\<rparr> \<and>
   model (run demoEnv [Resolved 1 \<lparr>elements = [''ratings''], duration = 60\<rparr>,
                       Resolved 0 \<lparr>elements = [''reviews''], duration = 60\<rparr>] demoTwoWaiting) =
     \<lparr>nodes = [''a'', ''reviews''], edges = [], graph = graphConfig\<rparr> \<and>
   model (run demoEnv [Resolved 1 \<lparr>elements = [''ratings''], duration = 60\<rparr>,
                       Resolved 0 \<lparr>elements = [''reviews''], duration = 60\<rparr>] demoTwoWaiting) \<noteq>
     \<lparr>nodes = [''b'', ''ratings''], edges = [], graph = graphConfig\<rparr>"
  by (simp add: demoTwoWaiting_facts step_def settle_def fetchGraph_resume_def demoEnv_def
      graphQueryElements_def)

subsection \<open>Bursts of view changes\<close>

lemma step_Render_changed:
  assumes "d \<noteq> prevDuration s \<or> \<not> nsEqual activeNs (prevActiveNs s)"
  shows "prevActiveNs (step env (Render activeNs d) s) = activeNs"
    and "prevDuration (step env (Render activeNs d) s) = d"
    and "fetchGraphCalls (step env (Render activeNs d) s) = Suc (fetchGraphCalls s)"
    and "length (requests (step env (Render activeNs d) s)) =
           length (requests s) + (if activeNs = [] then 0 else 1)"
  using assms by (auto simp: step_def changeEffect_def)

lemma step_Render_timer:
  "clock (step env (Render activeNs d) s) = clock s"
  "debounce (step env (Render activeNs d) s) = debounce s"
  by (simp_all add: step_def changeEffect_def)

lemma run_renders_timer:
  "clock (run env (renders burst) s) = clock s \<and> debounce (run env (renders burst) s) = debounce s"
  by (induction burst arbitrary: s) (auto simp: renders_def step_Render_timer)

lemma run_renders_fetches:
  "qualifying_burst (prevActiveNs s) (prevDuration s) burst \<Longrightarrow>
     fetchGraphCalls (run env (renders burst) s) = fetchGraphCalls s + length burst \<and>
     length (requests (run env (renders burst) s)) =
       length (requests s) + length (filter (\<lambda>(activeNs, d). activeNs \<noteq> []) burst)"
proof (induction burst arbitrary: s)
  case Nil
  then show ?case by (simp add: renders_def)
next
  case (Cons ev burst)
  obtain activeNs d where ev: "ev = (activeNs, d)"
    by (cases ev)
  from Cons.prems ev
  have changed: "d \<noteq> prevDuration s \<or> \<not> nsEqual activeNs (prevActiveNs s)"
    and rest: "qualifying_burst activeNs d burst"
    by simp_all
  let ?s' = "step env (Render activeNs d) s"
  have "qualifying_burst (prevActiveNs ?s') (prevDuration ?s') burst"
    using rest by (simp add: step_Render_changed(1,2) [OF changed])
  from Cons.IH [OF this] show ?case
    using ev by (simp add: renders_def step_Render_changed(3,4) [OF changed])
qed

text \<open>
  C5. The effect of lines 152 to 162 calls \<^verbatim>\<open>fetchGraph\<close> itself, at once: a burst of N
  renders, each differing from the one before it, makes N calls of \<^verbatim>\<open>fetchGraph\<close> and
  one telemetry request for every render of the burst whose namespace list is not empty,
  however little time passes. The renders neither advance the clock nor touch the timer of
  \<^verbatim>\<open>useDebounce(refresh, 10)\<close>, which delays only the refresh scheduled at mount.
\<close>

theorem burst_fetches_once_per_change:
  "qualifying_burst (prevActiveNs s) (prevDuration s) burst \<Longrightarrow>
     fetchGraphCalls (run env (renders burst) s) = fetchGraphCalls s + length burst \<and>
     length (requests (run env (renders burst) s)) =
       length (requests s) + length (filter (\<lambda>(activeNs, d). activeNs \<noteq> []) burst) \<and>
     clock (run env (renders burst) s) = clock s \<and>
     debounce (run env (renders burst) s) = debounce s"
  using run_renders_fetches [of s burst env] run_renders_timer [of env burst s] by simp

lemma demo_burst_qualifies:
  "qualifying_burst [] 60 [([''a''], 60), ([''a'', ''b''], 60), ([''a'', ''b''], 300)]"
  by code_simp

theorem burst_fetches_once_per_change_witness:
  "qualifying_burst [] 60 [([''a''], 60), ([''a'', ''b''], 60), ([''a'', ''b''], 300)] \<and>
   fetchGraphCalls
     (run demoEnv (renders [([''a''], 60), ([''a'', ''b''], 60), ([''a'', ''b''], 300)])
        (mount [] 60 None)) = 3 \<and>
   length (requests
     (run demoEnv (renders [([''a''], 60), ([''a'', ''b''], 60), ([''a'', ''b''], 300)])
        (mount [] 60 None))) = 3"
  using burst_fetches_once_per_change [of "mount [] 60 None"
      "[([''a''], 60), ([''a'', ''b''], 60), ([''a'', ''b''], 300)]" demoEnv]
    demo_burst_qualifies
  by simp

lemma demo_burst_run:
  "length (requests (run demoEnv [Render [''a''] 60, Render [''a'', ''b''] 60] (mount [] 60 None))) = 2"
  "fetchGraphCalls (run demoEnv [Render [''a''] 60, Render [''a'', ''b''] 60] (mount [] 60 None)) = 2"
  "clock (run demoEnv [Render [''a''] 60, Render [''a'', ''b''] 60] (mount [] 60 None)) = 0"
  "debounce (run demoEnv [Render [''a''] 60, Render [''a'', ''b''] 60] (mount [] 60 None)) = Some 10"
  by code_simp+

theorem burst_not_coalesced_counterexample:
  "clock (run demoEnv [Render [''a''] 60, Render [''a'', ''b''] 60] (mount [] 60 None)) = 0 \<and>
   debounce (run demoEnv [Render [''a''] 60, Render [''a'', ''b''] 60] (mount [] 60 None)) = Some 10 \<and>
   fetchGraphCalls (run demoEnv [Render [''a''] 60, Render [''a'', ''b''] 60] (mount [] 60 None)) = 2 \<and>
   length (requests (run demoEnv [Render [''a''] 60, Render [''a'', ''b''] 60] (mount [] 60 None))) = 2"
  by (simp only: demo_burst_run)

subsection \<open>The snapshot and the model\<close>

lemma demoLoaded_facts:
  "model demoLoaded = \<lparr>nodes = [''a'', ''reviews''], edges = [], graph = graphConfig\<rparr>"
  "prevActiveNs demoLoaded = [''a'']"
  "prevDuration demoLoaded = 60"
  "requests demoLoaded = [graphQueryElements [''a'']]"
  "awaiting demoLoaded = []"
  by (simp_all add: demoLoaded_def step_def refresh_def settle_def fetchGraph_resume_def
      demoEnv_def graphQueryElements_def)

lemma a_b_differ: "\<not> nsEqual [''b''] [''a'']"
  by code_simp

text \<open>
  C6. The snapshot and the model are replaced at different moments. A render that
  differs from the snapshot, with a namespace list that is not empty, replaces the
  snapshot at once, when the request is issued, and leaves the model as it was. The
  response replaces the model later, in one update of nodes, edges and graph configuration
  together, and leaves the snapshot as it was. While the request is waiting the snapshot
  holds the new view parameters and the model the data of the earlier fetch.
\<close>

theorem snapshot_at_trigger_model_at_response:
  "((d \<noteq> prevDuration s \<or> \<not> nsEqual activeNs (prevActiveNs s)) \<and> activeNs \<noteq> [] \<longrightarrow>
      prevActiveNs (step env (Render activeNs d) s) = activeNs \<and>
      prevDuration (step env (Render activeNs d) s) = d \<and>
      model (step env (Render activeNs d) s) = model s \<and>
      awaiting (step env (Render activeNs d) s) = awaiting s @ [length (requests s)]) \<and>
   (i \<in> set (awaiting s) \<and> i < length (requests s) \<and>
    decorateGraphData env (elements data) (duration data) = Inr gd \<and>
    generateDataModel env gd (requests s ! i) = Inr g \<longrightarrow>
      model (step env (Resolved i data) s) =
        \<lparr>nodes = nodes g, edges = edges g, graph = graphConfig\<rparr> \<and>
      prevActiveNs (step env (Resolved i data) s) = prevActiveNs s \<and>
      prevDuration (step env (Resolved i data) s) = prevDuration s)"
  by (auto simp: step_def changeEffect_def settle_def fetchGraph_resume_def)

theorem snapshot_at_trigger_model_at_response_witness:
  "prevActiveNs (step demoEnv (Render [''b''] 60) demoLoaded) = [''b''] \<and>
   model (step demoEnv (Render [''b''] 60) demoLoaded) = model demoLoaded \<and>
   model (step demoEnv (Resolved 0 \<lparr>elements = [''reviews''], duration = 60\<rparr>)
            (demoWaiting None)) =
     \<lparr>nodes = [''a'', ''reviews''], edges = [], graph = graphConfig\<rparr> \<and>
   prevActiveNs (step demoEnv (Resolved 0 \<lparr>elements = [''reviews''], duration = 60\<rparr>)
            (demoWaiting None)) = prevActiveNs (demoWaiting None)"
  using snapshot_at_trigger_model_at_response [of 60 demoLoaded "[''b'']" demoEnv
      0 "\<lparr>elements = [''reviews''], duration = 60\<rparr>" "[''reviews'']"
      "\<lparr>nodes = [''a'', ''reviews''], edges = []\<rparr>"]
    snapshot_at_trigger_model_at_response [of 60 "demoWaiting None" "[''b'']" demoEnv
      0 "\<lparr>elements = [''reviews''], duration = 60\<rparr>" "[''reviews'']"
      "\<lparr>nodes = [''a'', ''reviews''], edges = []\<rparr>"]
    a_b_differ
  by (simp add: demoLoaded_facts demoWaiting_facts) (simp add: demoEnv_def graphQueryElements_def)

theorem snapshot_ahead_of_model_counterexample:
  "prevActiveNs (step demoEnv (Render [''b''] 60) demoLoaded) = [''b''] \<and>
   model (step demoEnv (Render [''b''] 60) demoLoaded) =
     \<lparr>nodes = [''a'', ''reviews''], edges = [], graph = graphConfig\<rparr> \<and>
   awaiting (step demoEnv (Render [''b''] 60) demoLoaded) = [1]"
  using a_b_differ
  by (simp add: demoLoaded_facts step_def changeEffect_def)

subsection \<open>The controller follows the model\<close>

lemma step_in_sync: "in_sync s \<Longrightarrow> in_sync (step env ev s)"
  using dispatch_model_cases [of env ev s]
  by (auto simp: in_sync_def step_def dispatch_controller)

lemma mount_in_sync: "in_sync (mount ns d au)"
  by (simp add: in_sync_def)

lemma run_in_sync: "in_sync s \<Longrightarrow> in_sync (run env evs s)"
  by (induction evs arbitrary: s) (simp_all add: step_in_sync)

text \<open>
  From the mount on and after every event, the controller has received by \<^verbatim>\<open>fromModel\<close>
  exactly the models the page has stored, in the order in which they were stored, every
  one with \<^verbatim>\<open>animate = false\<close>, and the last one received is the current model. The
  option that \<^verbatim>\<open>getVisualization\<close> switches on with \<^verbatim>\<open>setFitToScreenOnLayout(true)\<close> is
  never switched off. When the topology library lays a graph out, and what it does with
  the option then, is outside the page.
\<close>

lemma controller_receives_every_model:
  "fromModelCalls (controller (run env evs (mount ns d au))) =
     map (\<lambda>m. (m, False)) (stored (run env evs (mount ns d au))) \<and>
   fst (last (fromModelCalls (controller (run env evs (mount ns d au))))) =
     model (run env evs (mount ns d au)) \<and>
   fitToScreenOnLayout (controller (run env evs (mount ns d au)))"
proof -
  have "in_sync (run env evs (mount ns d au))"
    by (rule run_in_sync) (rule mount_in_sync)
  then show ?thesis
    by (simp add: in_sync_def last_map)
qed

subsection \<open>The query\<close>

lemma graphQueryElements_fixed_part: "fixed_part (graphQueryElements activeNs)"
  by (simp add: fixed_part_def graphQueryElements_def)

lemma fetchGraph_requests_cases:
  "requests (snd (fetchGraph activeNs s)) = requests s \<or>
   requests (snd (fetchGraph activeNs s)) = requests s @ [graphQueryElements activeNs]"
  by (simp add: fetchGraph_def Let_def)

lemma dispatch_requests_cases:
  "requests (dispatch env ev s) = requests s \<or>
   (\<exists>activeNs. requests (dispatch env ev s) = requests s @ [graphQueryElements activeNs])"
proof (cases ev)
  case (Render activeNs d)
  then show ?thesis
    using fetchGraph_requests_cases [of activeNs s, where ?'c = unit]
    by (auto simp: changeEffect_def)
next
  case (Tick dt)
  show ?thesis
  proof (cases "debounce s")
    case None
    with Tick show ?thesis by (simp add: Let_def)
  next
    case (Some deadline)
    with Tick show ?thesis
      using fetchGraph_requests_cases [of "refreshNs s"
          "s\<lparr>clock := clock s + dt, debounce := None\<rparr>", where ?'c = 'e]
      by (auto simp: Let_def refresh_def)
  qed
next
  case Refresh
  then show ?thesis
    using fetchGraph_requests_cases [of "refreshNs s" s, where ?'c = 'e]
    by (auto simp: refresh_def)
next
  case (Resolved i data)
  then show ?thesis by simp
next
  case (Failed i err)
  then show ?thesis by simp
qed

lemma step_requests_fixed_part:
  "\<forall>q \<in> set (requests s). fixed_part q \<Longrightarrow> \<forall>q \<in> set (requests (step env ev s)). fixed_part q"
  using dispatch_requests_cases [of env ev s]
  by (auto simp: step_def graphQueryElements_fixed_part)

lemma run_requests_fixed_part:
  "\<forall>q \<in> set (requests s). fixed_part q \<Longrightarrow> \<forall>q \<in> set (requests (run env evs s)). fixed_part q"
proof (induction evs arbitrary: s)
  case Nil
  then show ?case by simp
next
  case (Cons ev evs)
  from Cons.prems have "\<forall>q \<in> set (requests (step env ev s)). fixed_part q"
    by (rule step_requests_fixed_part)
  then show ?case
    using Cons.IH by simp
qed

text \<open>
  C9. Every query the page ever passes to \<^verbatim>\<open>getGraphElements\<close> has the graph type
  \<open>VERSIONED_APP\<close>, \<^verbatim>\<open>injectServiceNodes\<close>, \<^verbatim>\<open>boxByNamespace\<close> and \<^verbatim>\<open>boxByCluster\<close> true,
  \<^verbatim>\<open>showOutOfMesh\<close>, \<^verbatim>\<open>showSecurity\<close> and \<^verbatim>\<open>showVirtualServices\<close> false, the same appenders,
  edge labels and traffic rates, and two equal namespace fields. When a view change
  triggers the fetch and the namespace list of the render is not empty, the query sent is
  fixed by that list alone: the namespace fields are its names joined by commas in the
  order of the list. The duration is no part of it: two such fetches with the same
  namespace list and different durations send the same query.
\<close>

theorem query_fixed_by_namespace_list:
  "(\<forall>q \<in> set (requests (run env evs (mount ns d0 au))).
      appenders q = ''health,deadNode,istio,serviceEntry,meshCheck,workloadEntry'' \<and>
      activeNamespaces q = namespaces q \<and>
      graphType q = VERSIONED_APP \<and>
      injectServiceNodes q = True \<and>
      boxByNamespace q = True \<and>
      boxByCluster q = True \<and>
      showOutOfMesh q = False \<and>
      showSecurity q = False \<and>
      showVirtualServices q = False \<and>
      edgeLabels q = [TRAFFIC_RATE, TRAFFIC_DISTRIBUTION] \<and>
      trafficRates q = [HTTP_REQUEST, GRPC_TOTAL, TCP_TOTAL]) \<and>
   ((d \<noteq> prevDuration s \<or> \<not> nsEqual activeNs (prevActiveNs s)) \<and> activeNs \<noteq> [] \<longrightarrow>
      requests (step env (Render activeNs d) s) =
        requests s @
        [\<lparr>appenders = ''health,deadNode,istio,serviceEntry,meshCheck,workloadEntry'',
          activeNamespaces = join '','' activeNs,
          namespaces = join '','' activeNs,
          graphType = VERSIONED_APP,
          injectServiceNodes = True,
          boxByNamespace = True,
          boxByCluster = True,
          showOutOfMesh = False,
          showSecurity = False,
          showVirtualServices = False,
          edgeLabels = [TRAFFIC_RATE, TRAFFIC_DISTRIBUTION],
          trafficRates = [HTTP_REQUEST, GRPC_TOTAL, TCP_TOTAL]\<rparr>]) \<and>
   ((d1 \<noteq> prevDuration s1 \<or> \<not> nsEqual activeNs (prevActiveNs s1)) \<and>
    (d2 \<noteq> prevDuration s2 \<or> \<not> nsEqual activeNs (prevActiveNs s2)) \<and> activeNs \<noteq> [] \<longrightarrow>
      last (requests (step env (Render activeNs d1) s1)) =
      last (requests (step env (Render activeNs d2) s2)))"
proof -
  have "\<forall>q \<in> set (requests (run env evs (mount ns d0 au))). fixed_part q"
    by (rule run_requests_fixed_part) simp
  then have "\<forall>q \<in> set (requests (run env evs (mount ns d0 au))).
      appenders q = ''health,deadNode,istio,serviceEntry,meshCheck,workloadEntry'' \<and>
      activeNamespaces q = namespaces q \<and>
      graphType q = VERSIONED_APP \<and>
      injectServiceNodes q = True \<and>
      boxByNamespace q = True \<and>
      boxByCluster q = True \<and>
      showOutOfMesh q = False \<and>
      showSecurity q = False \<and>
      showVirtualServices q = False \<and>
      edgeLabels q = [TRAFFIC_RATE, TRAFFIC_DISTRIBUTION] \<and>
      trafficRates q = [HTTP_REQUEST, GRPC_TOTAL, TCP_TOTAL]"
    unfolding fixed_part_def .
  moreover have "(d \<noteq> prevDuration s \<or> \<not> nsEqual activeNs (prevActiveNs s)) \<and> activeNs \<noteq> [] \<longrightarrow>
      requests (step env (Render activeNs d) s) =
        requests s @
        [\<lparr>appenders = ''health,deadNode,istio,serviceEntry,meshCheck,workloadEntry'',
          activeNamespaces = join '','' activeNs,
          namespaces = join '','' activeNs,
          graphType = VERSIONED_APP,
          injectServiceNodes = True,
          boxByNamespace = True,
          boxByCluster = True,
          showOutOfMesh = False,
          showSecurity = False,
          showVirtualServices = False,
          edgeLabels = [TRAFFIC_RATE, TRAFFIC_DISTRIBUTION],
          trafficRates = [HTTP_REQUEST, GRPC_TOTAL, TCP_TOTAL]\<rparr>]"
    by (auto simp: step_def changeEffect_def graphQueryElements_def)
  moreover have "(d1 \<noteq> prevDuration s1 \<or> \<not> nsEqual activeNs (prevActiveNs s1)) \<and>
    (d2 \<noteq> prevDuration s2 \<or> \<not> nsEqual activeNs (prevActiveNs s2)) \<and> activeNs \<noteq> [] \<longrightarrow>
      last (requests (step env (Render activeNs d1) s1)) =
      last (requests (step env (Render activeNs d2) s2))"
    by (auto simp: step_def changeEffect_def)
  ultimately show ?thesis
    by blast
qed

lemma demo_query_run:
  "requests (run demoEnv [Render [''a'', ''b''] 60, Refresh, Tick 10] (mount [] 30 None)) =
     [graphQueryElements [''a'', ''b'']]"
  by code_simp

theorem query_fixed_by_namespace_list_witness:
  "graphType (hd (requests (run demoEnv [Render [''a'', ''b''] 60, Refresh, Tick 10]
                      (mount [] 30 None)))) = VERSIONED_APP \<and>
   namespaces (last (requests (step demoEnv (Render [''a'', ''b''] 60) (mount [] 30 None)))) =
     ''a,b'' \<and>
   last (requests (step demoEnv (Render [''a'', ''b''] 60) (mount [] 30 None))) =
   last (requests (step demoEnv (Render [''a'', ''b''] 120) (mount [] 30 None)))"
proof -
  note query = query_fixed_by_namespace_list [of demoEnv
      "[Render [''a'', ''b''] 60, Refresh, Tick 10]" "[]" 30 None
      60 "mount [] 30 None" "[''a'', ''b'']" 60 "mount [] 30 None" 120 "mount [] 30 None"]
  have "graphType (hd (requests (run demoEnv [Render [''a'', ''b''] 60, Refresh, Tick 10]
                      (mount [] 30 None)))) = VERSIONED_APP"
    using query [THEN conjunct1] demo_query_run by simp
  moreover have "namespaces (last (requests (step demoEnv (Render [''a'', ''b''] 60)
                      (mount [] 30 None)))) = ''a,b''"
    using query [THEN conjunct2, THEN conjunct1] by simp
  moreover have "last (requests (step demoEnv (Render [''a'', ''b''] 60) (mount [] 30 None))) =
      last (requests (step demoEnv (Render [''a'', ''b''] 120) (mount [] 30 None)))"
    using query [THEN conjunct2, THEN conjunct2] by simp
  ultimately show ?thesis
    by blast
qed

theorem query_follows_namespace_order_counterexample:
  "set [''a'', ''b''] = set [''b'', ''a''] \<and>
   namespaces (last (requests (step demoEnv (Render [''a'', ''b''] 60) (mount [] 30 None)))) = ''a,b'' \<and>
   namespaces (last (requests (step demoEnv (Render [''b'', ''a''] 120) (mount [] 30 None)))) = ''b,a'' \<and>
   last (requests (step demoEnv (Render [''a'', ''b''] 60) (mount [] 30 None))) \<noteq>
   last (requests (step demoEnv (Render [''b'', ''a''] 120) (mount [] 30 None)))"
  by code_simp

subsection \<open>The graph configuration\<close>

lemma step_configured: "configured s \<Longrightarrow> configured (step env ev s)"
  using dispatch_model_cases [of env ev s]
  by (auto simp: configured_def step_def)

lemma mount_configured: "configured (mount ns d au)"
  by (simp add: configured_def)

lemma run_configured: "configured s \<Longrightarrow> configured (run env evs s)"
  by (induction evs arbitrary: s) (simp_all add: step_configured)

text \<open>
  C10. From the mount on and after every event, the current model and every model the
  page has stored (the initial one, the one of the empty namespace list, those built
  from responses) have the graph configuration \<^verbatim>\<open>{id: 'g1', type: 'graph', layout: 'Dagre'}\<close>.
\<close>

theorem graph_config_constant:
  "(\<forall>m \<in> set (stored (run env evs (mount ns d au))).
      graph m = \<lparr>config_id = ''g1'', config_type = ''graph'', layout = ''Dagre''\<rparr>) \<and>
   graph (model (run env evs (mount ns d au))) =
     \<lparr>config_id = ''g1'', config_type = ''graph'', layout = ''Dagre''\<rparr>"
proof -
  have "configured (run env evs (mount ns d au))"
    by (rule run_configured) (rule mount_configured)
  then show ?thesis
    by (simp add: configured_def graphConfig_def)
qed

theorem graph_config_constant_witness:
  "length (stored (run demoEnv [Render [''a''] 60,
       Resolved 0 \<lparr>elements = [''reviews''], duration = 60\<rparr>, Render [] 60]
       (mount [] 60 None))) = 3 \<and>
   map graph (stored (run demoEnv [Render [''a''] 60,
       Resolved 0 \<lparr>elements = [''reviews''], duration = 60\<rparr>, Render [] 60]
       (mount [] 60 None))) =
     replicate 3 \<lparr>config_id = ''g1'', config_type = ''graph'', layout = ''Dagre''\<rparr>"
  using graph_config_constant [of demoEnv "[Render [''a''] 60,
       Resolved 0 \<lparr>elements = [''reviews''], duration = 60\<rparr>, Render [] 60]" "[]" 60 None]
  by (simp add: step_def changeEffect_def nsEqual_def settle_def fetchGraph_resume_def
      demoEnv_def graphQueryElements_def numeral_3_eq_3 graphConfig_def)

end
